theory Spec2Isabelle
  imports Complex_Main
begin

section \<open>Turkey Audio Tours backend: request handlers over a relational store\<close>

text \<open>
  The handlers of \<^verbatim>\<open>routes/auth.js\<close>, \<^verbatim>\<open>routes/locations.js\<close>, \<^verbatim>\<open>routes/users.js\<close> and
  the middleware of \<^verbatim>\<open>middleware/auth.js\<close> are embedded as functions from a database state
  and a request to a response and a new database state. Time is a number of seconds and
  is passed in (\<open>now\<close>). Integers are mathematical integers; a statement whose parameter
  does not fit the \<^verbatim>\<open>INTEGER\<close> column it is compared with or stored in fails, and the
  handler's \<^verbatim>\<open>catch\<close> answers 500. The libraries the handlers
  call (jsonwebtoken, bcryptjs, validator, Express) are not part of the repository: what
  the handlers need of them is either written out below under a heading that says so,
  or taken as a parameter.
\<close>

subsection \<open>JavaScript helpers\<close>

text \<open>\<^verbatim>\<open>s.split(c)\<close> for a one-character separator: the pieces between the separators,
  empty pieces included; never the empty list.\<close>

fun split_on :: "char \<Rightarrow> string \<Rightarrow> string list" where
  "split_on c [] = [[]]"
| "split_on c (x # xs) =
     (if x = c then [] # split_on c xs
      else (case split_on c xs of
              [] \<Rightarrow> [[x]]
            | p # ps \<Rightarrow> (x # p) # ps))"

text \<open>\<^verbatim>\<open>xs[i]\<close> in JavaScript: \<^verbatim>\<open>undefined\<close> out of range.\<close>

definition js_index :: "'a list \<Rightarrow> nat \<Rightarrow> 'a option" where
  "js_index xs i = (if i < length xs then Some (xs ! i) else None)"

text \<open>validator's \<^verbatim>\<open>isInt\<close>: the string is an optional sign and then one or more digits
  (leading zeros are allowed by default); \<open>int_literal\<close> also gives the number it
  denotes.\<close>

definition is_digit :: "char \<Rightarrow> bool" where
  "is_digit c = (48 \<le> (of_char c :: nat) \<and> (of_char c :: nat) \<le> 57)"

definition nat_of_digits :: "string \<Rightarrow> nat" where
  "nat_of_digits ds = foldl (\<lambda>a c. 10 * a + (of_char c - 48)) 0 ds"

definition unsigned_literal :: "string \<Rightarrow> nat option" where
  "unsigned_literal ds =
     (if ds \<noteq> [] \<and> list_all is_digit ds then Some (nat_of_digits ds) else None)"

fun int_literal :: "string \<Rightarrow> int option" where
  "int_literal [] = None"
| "int_literal (c # cs) =
     (if c = CHR ''-'' then map_option (\<lambda>n. - int n) (unsigned_literal cs)
      else if c = CHR ''+'' then map_option int (unsigned_literal cs)
      else map_option int (unsigned_literal (c # cs)))"


subsection \<open>Responses\<close>

text \<open>The envelope \<^verbatim>\<open>{success, data?, message?, error?, details?}\<close> sent with a status.
  \<open>details\<close> holds the messages of \<^verbatim>\<open>errors.array()\<close>.\<close>

record 'd response =
  status :: nat
  success :: bool
  error :: "string option"
  message :: "string option"
  details :: "string list"
  data :: "'d option"

definition fail :: "nat \<Rightarrow> string \<Rightarrow> string option \<Rightarrow> 'd response" where
  "fail st e m =
     \<lparr>status = st, success = False, error = Some e, message = m, details = [], data = None\<rparr>"

definition validation_failed :: "string list \<Rightarrow> 'd response" where
  "validation_failed msgs =
     \<lparr>status = 400, success = False, error = Some ''Validation failed'', message = None,
      details = msgs, data = None\<rparr>"

definition ok :: "nat \<Rightarrow> string option \<Rightarrow> 'd option \<Rightarrow> 'd response" where
  "ok st m d =
     \<lparr>status = st, success = True, error = None, message = m, details = [], data = d\<rparr>"

subsection \<open>The tables of \<^verbatim>\<open>database/db.js\<close>\<close>

record user_row =
  u_id :: int
  u_email :: string
  u_password_hash :: string
  u_first_name :: string
  u_last_name :: string
  u_is_premium :: bool
  u_subscription_type :: string
  u_created_at :: nat
  u_updated_at :: nat

text \<open>Nullable columns that a handler can leave \<^verbatim>\<open>NULL\<close> are options.\<close>

record location_row =
  l_id :: int
  l_name :: string
  l_description :: "string option"
  l_category :: "string option"
  l_duration :: "string option"
  l_rating :: "rat option"
  l_listeners :: "int option"
  l_is_premium :: "bool option"
  l_image_url :: "string option"
  l_audio_url :: "string option"
  l_latitude :: "rat option"
  l_longitude :: "rat option"
  l_created_at :: nat
  l_updated_at :: nat
  l_created_by :: "int option"

text \<open>The surrogate \<^verbatim>\<open>id\<close> columns of \<^verbatim>\<open>user_favorites\<close> and \<^verbatim>\<open>user_progress\<close> are left
  out: no handler returns them or decides on their value (the favorites check only counts
  the rows it selects).\<close>

record favorite_row =
  f_user_id :: int
  f_location_id :: int
  f_created_at :: nat

record progress_row =
  p_user_id :: int
  p_location_id :: int
  progress_percentage :: int
  completed :: bool
  last_position :: int
  p_created_at :: nat
  p_updated_at :: nat

text \<open>A table is the list of its rows in insertion order; \<open>users_seq\<close> is the next value
  of the sequence behind \<^verbatim>\<open>users.id\<close>.\<close>

record db =
  users :: "user_row list"
  users_seq :: int
  locations :: "location_row list"
  user_favorites :: "favorite_row list"
  user_progress :: "progress_row list"

text \<open>What a statement can fail with; the handlers' \<^verbatim>\<open>catch\<close> turns each into a 500
  whose message is the error's text.\<close>

datatype db_error = UniqueViolation string | ForeignKeyViolation string | InvalidParameter string

fun db_error_message :: "db_error \<Rightarrow> string" where
  "db_error_message (UniqueViolation c) = ''duplicate key value violates unique constraint '' @ c"
| "db_error_message (ForeignKeyViolation c) = ''violates foreign key constraint '' @ c"
| "db_error_message (InvalidParameter m) = m"

subsection \<open>Route tables and dispatch\<close>

text \<open>Express tries the routes of a router in the order of their registration and runs
  the first whose method and path pattern match. A pattern is matched against the whole
  path, segment by segment: a literal segment matches itself, a \<^verbatim>\<open>:name\<close> segment matches
  one non-empty segment and never a \<^verbatim>\<open>/\<close>. (Express is a dependency; this is its matching
  rule for the patterns the routers use.)\<close>

datatype http_method = GET | POST | PUT | DELETE

datatype segment = Lit string | Param string

datatype location_handler =
  ListLocations | GetLocationById | CreateLocation | UpdateLocation | DeleteLocation
  | StatsOverview

record 'h route =
  r_method :: http_method
  r_pattern :: "segment list"
  r_handler :: 'h

fun segment_matches :: "segment \<Rightarrow> string \<Rightarrow> bool" where
  "segment_matches (Lit l) s = (l = s)"
| "segment_matches (Param _) s = (s \<noteq> [])"

fun pattern_matches :: "segment list \<Rightarrow> string list \<Rightarrow> bool" where
  "pattern_matches [] [] = True"
| "pattern_matches (p # ps) (s # ss) = (segment_matches p s \<and> pattern_matches ps ss)"
| "pattern_matches _ _ = False"

definition path_segments :: "string \<Rightarrow> string list" where
  "path_segments path = filter (\<lambda>s. s \<noteq> []) (split_on CHR ''/'' path)"

definition route_matches :: "http_method \<Rightarrow> string \<Rightarrow> 'h route \<Rightarrow> bool" where
  "route_matches m path r =
     (r_method r = m \<and> pattern_matches (r_pattern r) (path_segments path))"

definition dispatch :: "'h route list \<Rightarrow> http_method \<Rightarrow> string \<Rightarrow> 'h option" where
  "dispatch routes m path = map_option r_handler (List.find (route_matches m path) routes)"

text \<open>The router of \<^verbatim>\<open>routes/locations.js\<close>, in the order of its \<^verbatim>\<open>router.get\<close>,
  \<^verbatim>\<open>router.post\<close>, \<^verbatim>\<open>router.put\<close> and \<^verbatim>\<open>router.delete\<close> calls; the paths are relative to the
  mount point \<^verbatim>\<open>/api/locations\<close>.\<close>

definition locations_router :: "location_handler route list" where
  "locations_router =
     [\<lparr>r_method = GET, r_pattern = [], r_handler = ListLocations\<rparr>,
      \<lparr>r_method = GET, r_pattern = [Param ''id''], r_handler = GetLocationById\<rparr>,
      \<lparr>r_method = POST, r_pattern = [], r_handler = CreateLocation\<rparr>,
      \<lparr>r_method = PUT, r_pattern = [Param ''id''], r_handler = UpdateLocation\<rparr>,
      \<lparr>r_method = DELETE, r_pattern = [Param ''id''], r_handler = DeleteLocation\<rparr>,
      \<lparr>r_method = GET, r_pattern = [Lit ''stats'', Lit ''overview''], r_handler = StatsOverview\<rparr>]"

text \<open>The position at which a handler was registered, and "registered before".\<close>

fun position_of :: "'h \<Rightarrow> 'h route list \<Rightarrow> nat option" where
  "position_of h [] = None"
| "position_of h (r # rs) =
     (if r_handler r = h then Some 0 else map_option Suc (position_of h rs))"

definition registered_before :: "'h route list \<Rightarrow> 'h \<Rightarrow> 'h \<Rightarrow> bool" where
  "registered_before routes h1 h2 =
     (case (position_of h1 routes, position_of h2 routes) of
        (Some i, Some j) \<Rightarrow> i < j
      | _ \<Rightarrow> False)"

subsection \<open>\<^verbatim>\<open>routes/locations.js\<close>: list and statistics\<close>

text \<open>The query string of \<^verbatim>\<open>GET /api/locations\<close>; an absent parameter is \<open>None\<close>.\<close>

record list_query =
  q_category :: "string option"
  q_is_premium :: "string option"
  q_limit :: "string option"
  q_offset :: "string option"

text \<open>The body of the list response: the rows, and \<^verbatim>\<open>total\<close>, \<^verbatim>\<open>limit\<close> and
  \<^verbatim>\<open>offset\<close>, which the source puts beside \<^verbatim>\<open>data\<close>.\<close>

record location_page =
  rows :: "location_row list"
  total :: nat
  page_limit :: int
  page_offset :: int

text \<open>\<^verbatim>\<open>ORDER BY created_at DESC\<close>: newest first; rows of equal time keep their table
  order.\<close>

definition newest_first :: "location_row list \<Rightarrow> location_row list" where
  "newest_first ls = sort_key (\<lambda>l. - int (l_created_at l)) ls"

text \<open>The \<^verbatim>\<open>WHERE\<close> clause the handler builds: \<^verbatim>\<open>category\<close> is added when the parameter is
  truthy, \<^verbatim>\<open>is_premium = $n\<close> when the parameter is not \<^verbatim>\<open>undefined\<close>, with the value
  \<^verbatim>\<open>is_premium === 'true'\<close>. A comparison with a \<^verbatim>\<open>NULL\<close> column is not true.\<close>

definition list_where :: "list_query \<Rightarrow> location_row \<Rightarrow> bool" where
  "list_where q l =
     ((case q_category q of
         None \<Rightarrow> True
       | Some c \<Rightarrow> if c = [] then True else l_category l = Some c)
      \<and> (case q_is_premium q of
            None \<Rightarrow> True
          | Some v \<Rightarrow> l_is_premium l = Some (v = ''true'')))"

text \<open>\<^verbatim>\<open>parseInt\<close> is a parameter (\<open>None\<close> for \<^verbatim>\<open>NaN\<close>); \<^verbatim>\<open>limit = 50\<close> and \<^verbatim>\<open>offset = 0\<close>
  are the defaults of the destructuring. The database refuses a \<^verbatim>\<open>LIMIT\<close> or
  \<^verbatim>\<open>OFFSET\<close> that is not a number or is negative.\<close>

definition parse_or_default :: "(string \<Rightarrow> int option) \<Rightarrow> int \<Rightarrow> string option \<Rightarrow> int option" where
  "parse_or_default parseInt dflt v = (case v of None \<Rightarrow> Some dflt | Some s \<Rightarrow> parseInt s)"

definition select_page ::
  "location_row list \<Rightarrow> int option \<Rightarrow> int option \<Rightarrow> db_error + location_row list" where
  "select_page ls lmt ofs =
     (case (lmt, ofs) of
        (Some n, Some k) \<Rightarrow>
          if n < 0 then Inl (InvalidParameter ''LIMIT must not be negative'')
          else if k < 0 then Inl (InvalidParameter ''OFFSET must not be negative'')
          else Inr (take (nat n) (drop (nat k) ls))
      | _ \<Rightarrow> Inl (InvalidParameter ''invalid input syntax for type bigint''))"

definition list_locations ::
  "(string \<Rightarrow> int option) \<Rightarrow> db \<Rightarrow> list_query \<Rightarrow> location_page response" where
  "list_locations parseInt d q =
     (let lmt = parse_or_default parseInt 50 (q_limit q);
          ofs = parse_or_default parseInt 0 (q_offset q)
      in case select_page (newest_first (filter (list_where q) (locations d))) lmt ofs of
           Inl e \<Rightarrow> fail 500 ''Failed to fetch locations'' (Some (db_error_message e))
         | Inr rs \<Rightarrow>
             ok 200 None
               (Some \<lparr>rows = rs, total = length rs,
                      page_limit = (case lmt of Some n \<Rightarrow> n | None \<Rightarrow> 0),
                      page_offset = (case ofs of Some k \<Rightarrow> k | None \<Rightarrow> 0)\<rparr>))"

text \<open>\<^verbatim>\<open>GET /api/locations/stats/overview\<close>. \<open>average_rating\<close> is the number handed to
  \<^verbatim>\<open>toFixed(1)\<close>; the decimal formatting of that floating-point number is not modelled.\<close>

record overview =
  total_locations :: int
  premium_locations :: int
  free_locations :: int
  average_rating :: rat
  categories :: "(string option \<times> nat) list"

text \<open>\<^verbatim>\<open>SELECT category, COUNT(*) ... GROUP BY category ORDER BY count DESC\<close>.\<close>

definition category_count :: "location_row list \<Rightarrow> string option \<Rightarrow> nat" where
  "category_count ls c = length (filter (\<lambda>l. l_category l = c) ls)"

definition category_stats :: "location_row list \<Rightarrow> (string option \<times> nat) list" where
  "category_stats ls =
     sort_key (\<lambda>g. - int (snd g))
       (map (\<lambda>c. (c, category_count ls c)) (remdups (map l_category ls)))"

text \<open>\<^verbatim>\<open>SELECT AVG(rating) ... WHERE rating > 0\<close>: \<^verbatim>\<open>NULL\<close> when no row qualifies.\<close>

definition rated :: "location_row list \<Rightarrow> rat list" where
  "rated ls = filter (\<lambda>r. 0 < r) (concat (map (\<lambda>l. case l_rating l of None \<Rightarrow> [] | Some r \<Rightarrow> [r]) ls))"

definition avg_rating :: "location_row list \<Rightarrow> rat option" where
  "avg_rating ls =
     (if rated ls = [] then None else Some (sum_list (rated ls) / of_nat (length (rated ls))))"

definition stats_overview :: "db \<Rightarrow> overview response" where
  "stats_overview d =
     (let totalLocations = int (length (locations d));
          premiumLocations = int (length (filter (\<lambda>l. l_is_premium l = Some True) (locations d)))
      in ok 200 None
           (Some \<lparr>total_locations = totalLocations,
                  premium_locations = premiumLocations,
                  free_locations = totalLocations - premiumLocations,
                  average_rating = (case avg_rating (locations d) of None \<Rightarrow> 0 | Some a \<Rightarrow> a),
                  categories = category_stats (locations d)\<rparr>))"

subsection \<open>The environment of the process\<close>

text \<open>\<^verbatim>\<open>process.env.JWT_SECRET\<close>, and the library functions the handlers call, as
  parameters: validator's \<^verbatim>\<open>isEmail\<close> and \<^verbatim>\<open>normalizeEmail\<close>, bcryptjs's \<^verbatim>\<open>hash\<close> (with its
  salt) and \<^verbatim>\<open>compare\<close>, and of jsonwebtoken the keyed signature over a payload and the
  encoding of a signed token as a string and back.\<close>

record token_claims =
  c_id :: int
  c_email :: string
  c_is_premium :: bool
  c_subscription_type :: string

record jwt_payload = token_claims +
  iat :: nat
  exp :: nat

record jwt =
  payload :: jwt_payload
  signature :: string

record env =
  JWT_SECRET :: "string option"
  isEmail :: "string \<Rightarrow> bool"
  normalizeEmail :: "string \<Rightarrow> string"
  bcrypt_hash :: "string \<Rightarrow> string"
  bcrypt_compare :: "string \<Rightarrow> string \<Rightarrow> bool"
  jwt_mac :: "string \<Rightarrow> jwt_payload \<Rightarrow> string"
  jwt_encode :: "jwt \<Rightarrow> string"
  jwt_decode :: "string \<Rightarrow> jwt option"

text \<open>\<^verbatim>\<open>process.env.JWT_SECRET || 'your-secret-key'\<close>: the fallback also replaces an empty
  string.\<close>

definition jwt_secret :: "env \<Rightarrow> string" where
  "jwt_secret e =
     (case JWT_SECRET e of
        None \<Rightarrow> ''your-secret-key''
      | Some s \<Rightarrow> if s = [] then ''your-secret-key'' else s)"

subsection \<open>jsonwebtoken: \<^verbatim>\<open>sign\<close> and \<^verbatim>\<open>verify\<close>\<close>

text \<open>The library, as far as the handlers use it. \<^verbatim>\<open>sign(claims, secret, {expiresIn: '7d'})\<close>
  adds the issue time and the expiry, seven days later, to the claims, signs the payload
  and encodes the token. \<^verbatim>\<open>verify(token, secret, callback)\<close> decodes the token, checks the
  signature, then the expiry, and calls back with the payload or with an error that has a
  \<^verbatim>\<open>name\<close>: \<^verbatim>\<open>JsonWebTokenError\<close> for a token that is malformed or whose signature does not
  verify, \<^verbatim>\<open>TokenExpiredError\<close> once the clock has reached \<^verbatim>\<open>exp\<close>.\<close>

datatype jwt_error = JwtError (name: string) (err_message: string)

definition seven_days :: nat where
  "seven_days = 7 * 24 * 60 * 60"

definition issued_jwt :: "env \<Rightarrow> token_claims \<Rightarrow> string \<Rightarrow> nat \<Rightarrow> jwt" where
  "issued_jwt e c secret now =
     (let p = \<lparr>c_id = c_id c, c_email = c_email c, c_is_premium = c_is_premium c,
               c_subscription_type = c_subscription_type c, iat = now, exp = now + seven_days\<rparr>
      in \<lparr>payload = p, signature = jwt_mac e secret p\<rparr>)"

definition jwt_sign :: "env \<Rightarrow> token_claims \<Rightarrow> string \<Rightarrow> nat \<Rightarrow> string" where
  "jwt_sign e c secret now = jwt_encode e (issued_jwt e c secret now)"

definition jwt_verify :: "env \<Rightarrow> string \<Rightarrow> string \<Rightarrow> nat \<Rightarrow> jwt_error + jwt_payload" where
  "jwt_verify e token secret now =
     (case jwt_decode e token of
        None \<Rightarrow> Inl (JwtError ''JsonWebTokenError'' ''jwt malformed'')
      | Some t \<Rightarrow>
          if signature t \<noteq> jwt_mac e secret (payload t)
          then Inl (JwtError ''JsonWebTokenError'' ''invalid signature'')
          else if exp (payload t) \<le> now
          then Inl (JwtError ''TokenExpiredError'' ''jwt expired'')
          else Inr (payload t))"

subsection \<open>\<^verbatim>\<open>middleware/auth.js\<close>\<close>

text \<open>The middleware either sends a response or sets \<^verbatim>\<open>req.user\<close> and calls
  \<^verbatim>\<open>next()\<close>.\<close>

datatype auth_result = Rejected "unit response" | Next jwt_payload

text \<open>\<^verbatim>\<open>authHeader && authHeader.split(' ')[1]\<close>: falsy for a missing or empty header,
  a header with no space, and an empty second piece.\<close>

definition bearer_token :: "string option \<Rightarrow> string option" where
  "bearer_token authHeader =
     (case authHeader of
        None \<Rightarrow> None
      | Some h \<Rightarrow>
          if h = [] then None
          else (case js_index (split_on CHR '' '' h) 1 of
                  None \<Rightarrow> None
                | Some t \<Rightarrow> if t = [] then None else Some t))"

text \<open>The error branch of the \<^verbatim>\<open>jwt.verify\<close> callback.\<close>

definition token_rejection :: "jwt_error \<Rightarrow> unit response" where
  "token_rejection err =
     (if name err = ''TokenExpiredError''
      then fail 401 ''Token expired'' (Some ''Your session has expired. Please login again.'')
      else if name err = ''JsonWebTokenError''
      then fail 403 ''Invalid token'' (Some ''The provided token is invalid'')
      else fail 403 ''Token verification failed'' (Some ''Unable to verify the provided token''))"

definition authenticateToken :: "env \<Rightarrow> nat \<Rightarrow> string option \<Rightarrow> auth_result" where
  "authenticateToken e now authHeader =
     (case bearer_token authHeader of
        None \<Rightarrow>
          Rejected (fail 401 ''Access token required'' (Some ''Please provide a valid access token''))
      | Some token \<Rightarrow>
          (case jwt_verify e token (jwt_secret e) now of
             Inl err \<Rightarrow> Rejected (token_rejection err)
           | Inr user \<Rightarrow> Next user))"

subsection \<open>\<^verbatim>\<open>routes/auth.js\<close>: registration and login\<close>

definition claims_of :: "user_row \<Rightarrow> token_claims" where
  "claims_of user =
     \<lparr>c_id = u_id user, c_email = u_email user, c_is_premium = u_is_premium user,
      c_subscription_type = u_subscription_type user\<rparr>"

definition generateToken :: "env \<Rightarrow> nat \<Rightarrow> user_row \<Rightarrow> string" where
  "generateToken e now user = jwt_sign e (claims_of user) (jwt_secret e) now"

text \<open>Request bodies after JSON parsing; a missing field is \<open>None\<close>, and a validator reads
  it as the empty string.\<close>

record register_body =
  rb_email :: "string option"
  rb_password :: "string option"
  rb_first_name :: "string option"
  rb_last_name :: "string option"

record login_body =
  lb_email :: "string option"
  lb_password :: "string option"

definition field_string :: "string option \<Rightarrow> string" where
  "field_string v = (case v of None \<Rightarrow> [] | Some s \<Rightarrow> s)"

definition is_space :: "char \<Rightarrow> bool" where
  "is_space c = (c \<in> set [CHR '' '', CHR 0x09, CHR 0x0A, CHR 0x0B, CHR 0x0C, CHR 0x0D])"

definition trim :: "string \<Rightarrow> string" where
  "trim s = rev (dropWhile is_space (rev (dropWhile is_space s)))"

text \<open>\<^verbatim>\<open>optional().trim().isLength({ min: 1, max: 100 })\<close>.\<close>

definition name_ok :: "string option \<Rightarrow> bool" where
  "name_ok v =
     (case v of
        None \<Rightarrow> True
      | Some s \<Rightarrow> 1 \<le> length (trim s) \<and> length (trim s) \<le> 100)"

definition validateRegistration :: "env \<Rightarrow> register_body \<Rightarrow> string list" where
  "validateRegistration e b =
     (if isEmail e (field_string (rb_email b)) then [] else [''Valid email is required''])
     @ (if 6 \<le> length (field_string (rb_password b)) then []
        else [''Password must be at least 6 characters long''])
     @ (if name_ok (rb_first_name b) then []
        else [''First name must be between 1 and 100 characters''])
     @ (if name_ok (rb_last_name b) then []
        else [''Last name must be between 1 and 100 characters''])"

definition validateLogin :: "env \<Rightarrow> login_body \<Rightarrow> string list" where
  "validateLogin e b =
     (if isEmail e (field_string (lb_email b)) then [] else [''Valid email is required''])
     @ (if field_string (lb_password b) \<noteq> [] then [] else [''Password is required''])"

text \<open>The user as the responses of register and login show it.\<close>

record user_view =
  v_id :: int
  v_email :: string
  v_first_name :: string
  v_last_name :: string
  v_is_premium :: bool
  v_subscription_type :: string
  v_created_at :: nat

record auth_data =
  ad_user :: user_view
  ad_token :: string

definition view_of :: "user_row \<Rightarrow> user_view" where
  "view_of u =
     \<lparr>v_id = u_id u, v_email = u_email u, v_first_name = u_first_name u,
      v_last_name = u_last_name u, v_is_premium = u_is_premium u,
      v_subscription_type = u_subscription_type u, v_created_at = u_created_at u\<rparr>"

definition users_by_email :: "db \<Rightarrow> string \<Rightarrow> user_row list" where
  "users_by_email d email = filter (\<lambda>u. u_email u = email) (users d)"

text \<open>\<^verbatim>\<open>INSERT INTO users (email, password_hash, first_name, last_name) ... RETURNING\<close>:
  the column defaults fill the rest; \<^verbatim>\<open>email\<close> is \<^verbatim>\<open>UNIQUE\<close>. A refused insert has
  used up its sequence value.\<close>

definition insert_user ::
  "db \<Rightarrow> string \<Rightarrow> string \<Rightarrow> string \<Rightarrow> string \<Rightarrow> nat \<Rightarrow> (db_error + user_row) \<times> db" where
  "insert_user d email password_hash first_name last_name now =
     (let u = \<lparr>u_id = users_seq d, u_email = email, u_password_hash = password_hash,
               u_first_name = first_name, u_last_name = last_name, u_is_premium = False,
               u_subscription_type = ''free'', u_created_at = now, u_updated_at = now\<rparr>
      in if users_by_email d email \<noteq> []
         then (Inl (UniqueViolation ''users_email_key''), d\<lparr>users_seq := users_seq d + 1\<rparr>)
         else (Inr u, d\<lparr>users := users d @ [u], users_seq := users_seq d + 1\<rparr>))"

definition register :: "env \<Rightarrow> nat \<Rightarrow> db \<Rightarrow> register_body \<Rightarrow> auth_data response \<times> db" where
  "register e now d b =
     (let errors = validateRegistration e b in
      if errors \<noteq> [] then (validation_failed errors, d)
      else
        let email = normalizeEmail e (field_string (rb_email b));
            password = field_string (rb_password b);
            first_name = (case rb_first_name b of None \<Rightarrow> [] | Some s \<Rightarrow> trim s);
            last_name = (case rb_last_name b of None \<Rightarrow> [] | Some s \<Rightarrow> trim s)
        in if users_by_email d email \<noteq> []
           then (fail 409 ''User already exists''
                   (Some ''An account with this email already exists''), d)
           else
             (case insert_user d email (bcrypt_hash e password) first_name last_name now of
                (Inl err, d') \<Rightarrow>
                  (fail 500 ''Failed to register user'' (Some (db_error_message err)), d')
              | (Inr user, d') \<Rightarrow>
                  (ok 201 (Some ''User registered successfully'')
                     (Some \<lparr>ad_user = view_of user, ad_token = generateToken e now user\<rparr>), d')))"

text \<open>Login reads the table and never writes it.\<close>

definition login :: "env \<Rightarrow> nat \<Rightarrow> db \<Rightarrow> login_body \<Rightarrow> auth_data response" where
  "login e now d b =
     (let errors = validateLogin e b in
      if errors \<noteq> [] then validation_failed errors
      else
        let email = normalizeEmail e (field_string (lb_email b));
            password = field_string (lb_password b)
        in case users_by_email d email of
             [] \<Rightarrow> fail 401 ''Invalid credentials'' (Some ''Email or password is incorrect'')
           | user # _ \<Rightarrow>
               if \<not> bcrypt_compare e password (u_password_hash user)
               then fail 401 ''Invalid credentials'' (Some ''Email or password is incorrect'')
               else ok 200 (Some ''Login successful'')
                      (Some \<lparr>ad_user = view_of user, ad_token = generateToken e now user\<rparr>))"

subsection \<open>\<^verbatim>\<open>routes/users.js\<close>: favorites and progress\<close>

























subsection \<open>\<^verbatim>\<open>database/db.js\<close>: the seeded database\<close>

text \<open>\<^verbatim>\<open>initializeDatabase\<close> creates the four tables and, the locations table being empty,
  inserts \<^verbatim>\<open>defaultLocations\<close>; the columns the insert does not name stay \<^verbatim>\<open>NULL\<close>.\<close>

definition defaultLocations :: "nat \<Rightarrow> location_row list" where
  "defaultLocations now =
     [\<lparr>l_id = 1, l_name = ''Hagia Sophia'',
       l_description = Some ''A masterpiece of Byzantine architecture that has served as both a cathedral and mosque...'',
       l_category = Some ''Architecture'', l_duration = Some ''8 min'',
       l_rating = Some (49 / 10), l_listeners = Some 2100, l_is_premium = Some False,
       l_image_url = Some ''https://images.unsplash.com/photo-1541432901042-2d8bd64b4a9b?w=800'',
       l_audio_url = None, l_latitude = Some (410086 / 10000),
       l_longitude = Some (289802 / 10000), l_created_at = now, l_updated_at = now,
       l_created_by = None\<rparr>,
      \<lparr>l_id = 2, l_name = ''Blue Mosque'',
       l_description = Some ''The Sultan Ahmed Mosque, known as the Blue Mosque for its beautiful blue tiles...'',
       l_category = Some ''Religion'', l_duration = Some ''6 min'',
       l_rating = Some (48 / 10), l_listeners = Some 1850, l_is_premium = Some False,
       l_image_url = Some ''https://images.unsplash.com/photo-1524231757912-21f4fe3a7200?w=800'',
       l_audio_url = None, l_latitude = Some (410054 / 10000),
       l_longitude = Some (289768 / 10000), l_created_at = now, l_updated_at = now,
       l_created_by = None\<rparr>,
      \<lparr>l_id = 3, l_name = ''Topkapi Palace'',
       l_description = Some ''Former residence of Ottoman sultans, now a museum showcasing imperial collections...'',
       l_category = Some ''History'', l_duration = Some ''12 min'',
       l_rating = Some (47 / 10), l_listeners = Some 1650, l_is_premium = Some True,
       l_image_url = Some ''https://images.unsplash.com/photo-1570939274717-7eda259b50ed?w=800'',
       l_audio_url = None, l_latitude = Some (410115 / 10000),
       l_longitude = Some (289833 / 10000), l_created_at = now, l_updated_at = now,
       l_created_by = None\<rparr>,
      \<lparr>l_id = 4, l_name = ''Galata Tower'',
       l_description = Some ''A medieval stone tower offering panoramic views of Istanbul and the Golden Horn...'',
       l_category = Some ''Architecture'', l_duration = Some ''10 min'',
       l_rating = Some (47 / 10), l_listeners = Some 1800, l_is_premium = Some False,
       l_image_url = Some ''https://images.unsplash.com/photo-1524231757912-21f4fe3a7200?w=800'',
       l_audio_url = None, l_latitude = Some (410256 / 10000),
       l_longitude = Some (289744 / 10000), l_created_at = now, l_updated_at = now,
       l_created_by = None\<rparr>]"

definition initializeDatabase :: "nat \<Rightarrow> db" where
  "initializeDatabase now =
     \<lparr>users = [], users_seq = 1, locations = defaultLocations now, user_favorites = [],
      user_progress = []\<rparr>"

subsection \<open>A concrete environment and concrete states\<close>

definition lower_case :: "char \<Rightarrow> char" where
  "lower_case c =
     (let n = (of_char c :: nat) in if 65 \<le> n \<and> n \<le> 90 then char_of (n + 32) else c)"

text \<open>An environment with no \<^verbatim>\<open>JWT_SECRET\<close> set and simple stand-ins for the library
  functions: an address is anything with an \<^verbatim>\<open>@\<close>, normalisation lowers the case, the
  hash prefixes the password, the signature joins secret and address, and the token
  encoding knows one token, the one issued at time 0 to the first registered user
  \<^verbatim>\<open>a@x.com\<close>.\<close>

definition first_user_token :: jwt where
  "first_user_token =
     \<lparr>payload = \<lparr>c_id = 1, c_email = ''a@x.com'', c_is_premium = False,
                  c_subscription_type = ''free'', iat = 0, exp = 604800\<rparr>,
      signature = ''your-secret-key/a@x.com''\<rparr>"

definition plain_env :: env where
  "plain_env =
     \<lparr>JWT_SECRET = None,
      isEmail = (\<lambda>s. CHR ''@'' \<in> set s),
      normalizeEmail = map lower_case,
      bcrypt_hash = (\<lambda>password. ''$2a$12$'' @ password),
      bcrypt_compare = (\<lambda>password h. h = ''$2a$12$'' @ password),
      jwt_mac = (\<lambda>secret p. secret @ ''/'' @ c_email p),
      jwt_encode = (\<lambda>t. ''eyJhbGciOiJIUzI1NiJ9.eyJpZCI6MX0.c2ln''),
      jwt_decode = (\<lambda>s. if s = ''eyJhbGciOiJIUzI1NiJ9.eyJpZCI6MX0.c2ln''
                         then Some first_user_token else None)\<rparr>"

text \<open>The registration of the first user, and the database after it.\<close>

definition first_registration :: register_body where
  "first_registration =
     \<lparr>rb_email = Some ''a@x.com'', rb_password = Some ''secret1'', rb_first_name = None,
      rb_last_name = None\<rparr>"

definition one_user_db :: db where
  "one_user_db = snd (register plain_env 0 (initializeDatabase 0) first_registration)"

text \<open>A database whose locations carry the given ratings, in table order.\<close>

definition with_ratings :: "rat list \<Rightarrow> db \<Rightarrow> db" where
  "with_ratings rs d =
     d\<lparr>locations := map (\<lambda>(l, r). l\<lparr>l_rating := Some r\<rparr>) (zip (locations d) rs)\<rparr>"



text \<open>The row of the first user.\<close>

definition first_user :: user_row where
  "first_user =
     \<lparr>u_id = 1, u_email = ''a@x.com'', u_password_hash = ''$2a$12$secret1'',
      u_first_name = [], u_last_name = [], u_is_premium = False,
      u_subscription_type = ''free'', u_created_at = 0, u_updated_at = 0\<rparr>"


subsection \<open>An encoding of signed tokens\<close>

text \<open>A stand-in for the library's encoding of a token as a string: the strings of the
  payload and the signature in hexadecimal over the letters \<^verbatim>\<open>a\<close> to \<^verbatim>\<open>p\<close>, the numbers in
  decimal, the fields joined by dots. \<open>token_env\<close> is \<open>plain_env\<close> with this encoding and
  a signature over the whole payload.\<close>

definition nibble_char :: "nat \<Rightarrow> char" where
  "nibble_char k = char_of (97 + k)"

definition nibble_of :: "char \<Rightarrow> nat option" where
  "nibble_of c =
     (if 97 \<le> (of_char c :: nat) \<and> (of_char c :: nat) < 113 then Some (of_char c - 97)
      else None)"

fun hex_encode :: "string \<Rightarrow> string" where
  "hex_encode [] = []"
| "hex_encode (c # cs) =
     nibble_char (of_char c div 16) # nibble_char (of_char c mod 16) # hex_encode cs"

fun hex_decode :: "string \<Rightarrow> string option" where
  "hex_decode [] = Some []"
| "hex_decode [x] = None"
| "hex_decode (x # y # cs) =
     (case (nibble_of x, nibble_of y, hex_decode cs) of
        (Some h, Some l, Some s) \<Rightarrow> Some (char_of (16 * h + l) # s)
      | _ \<Rightarrow> None)"

fun digits_of :: "nat \<Rightarrow> string" where
  "digits_of n =
     (if n < 10 then [char_of (48 + n)] else digits_of (n div 10) @ [char_of (48 + n mod 10)])"

declare digits_of.simps [simp del]

definition int_string :: "int \<Rightarrow> string" where
  "int_string i = (if i < 0 then CHR ''-'' # digits_of (nat (- i)) else digits_of (nat i))"

definition bool_string :: "bool \<Rightarrow> string" where
  "bool_string b = (if b then ''1'' else ''0'')"

definition bool_parse :: "string \<Rightarrow> bool option" where
  "bool_parse s = (if s = ''1'' then Some True else if s = ''0'' then Some False else None)"

definition payload_string :: "jwt_payload \<Rightarrow> string" where
  "payload_string p =
     hex_encode (c_email p) @ ''.'' @ hex_encode (c_subscription_type p) @ ''.''
     @ int_string (c_id p) @ ''.'' @ bool_string (c_is_premium p) @ ''.''
     @ digits_of (iat p) @ ''.'' @ digits_of (exp p)"

definition jwt_string :: "jwt \<Rightarrow> string" where
  "jwt_string t = payload_string (payload t) @ ''.'' @ hex_encode (signature t)"

definition jwt_parse :: "string \<Rightarrow> jwt option" where
  "jwt_parse s =
     (case split_on CHR ''.'' s of
        [a, b, c, d, f, g, h] \<Rightarrow>
          (case (hex_decode a, hex_decode b, int_literal c, bool_parse d,
                 unsigned_literal f, unsigned_literal g, hex_decode h) of
             (Some email, Some subscription, Some i, Some premium, Some issued, Some expiry,
              Some sg) \<Rightarrow>
               Some \<lparr>payload = \<lparr>c_id = i, c_email = email, c_is_premium = premium,
                                 c_subscription_type = subscription, iat = issued,
                                 exp = expiry\<rparr>,
                      signature = sg\<rparr>
           | _ \<Rightarrow> None)
      | _ \<Rightarrow> None)"

definition token_env :: env where
  "token_env =
     plain_env\<lparr>jwt_mac := (\<lambda>secret p. secret @ ''/'' @ payload_string p),
               jwt_encode := jwt_string, jwt_decode := jwt_parse\<rparr>"

text \<open>A second user row, as a second registration would store it.\<close>

definition second_user :: user_row where
  "second_user =
     \<lparr>u_id = 2, u_email = ''b@x.com'', u_password_hash = ''$2a$12$hunter22'',
      u_first_name = ''Bea'', u_last_name = [], u_is_premium = True,
      u_subscription_type = ''pro'', u_created_at = 5, u_updated_at = 5\<rparr>"

section \<open>Properties\<close>

subsection \<open>Dispatch of the statistics route\<close>

text \<open>
  C8, as stated: a \<^verbatim>\<open>GET\<close> of the stats-overview path is handled by the statistics handler
  and never by the get-by-id handler, the stats route being matched before the by-id
  route. The second half does not hold of \<^verbatim>\<open>routes/locations.js\<close>: the router registers
  \<^verbatim>\<open>/:id\<close> first and \<^verbatim>\<open>/stats/overview\<close> last, so the statistics route is not
  registered before the by-id route.
\<close>

theorem stats_route_registered_first_counterexample:
  "\<not> registered_before locations_router StatsOverview GetLocationById"
  by (simp add: registered_before_def locations_router_def)

lemma stats_overview_segments:
  "path_segments ''/stats/overview'' = [''stats'', ''overview'']"
  by (simp add: path_segments_def)

text \<open>
  C8, amended: a \<^verbatim>\<open>GET\<close> of \<^verbatim>\<open>/stats/overview\<close> under the locations router is handled by the
  statistics handler and not by the get-by-id handler. The by-id route is registered
  before the statistics route and is tried first, but its pattern \<^verbatim>\<open>/:id\<close> matches paths
  of exactly one segment, so it does not match the two-segment statistics path.
\<close>

theorem stats_overview_dispatch:
  "dispatch locations_router GET ''/stats/overview'' = Some StatsOverview
   \<and> dispatch locations_router GET ''/stats/overview'' \<noteq> Some GetLocationById
   \<and> \<not> pattern_matches [Param ''id''] (path_segments ''/stats/overview'')
   \<and> registered_before locations_router GetLocationById StatsOverview"
  by (simp add: dispatch_def locations_router_def route_matches_def stats_overview_segments
      registered_before_def)

subsection \<open>The premium filter of the location list\<close>

lemma set_newest_first: "set (newest_first ls) = set ls"
  by (simp add: newest_first_def)

lemma list_locations_rows:
  assumes "data (list_locations parseInt d q) = Some page"
  shows "\<exists>n k. parse_or_default parseInt 50 (q_limit q) = Some n
           \<and> parse_or_default parseInt 0 (q_offset q) = Some k
           \<and> rows page = take (nat n) (drop (nat k) (newest_first (filter (list_where q) (locations d))))"
  using assms
  by (auto simp: list_locations_def Let_def select_page_def ok_def fail_def
           split: sum.splits option.splits if_splits)

text \<open>
  C10: when the \<^verbatim>\<open>is_premium\<close> query parameter is present with value \<open>v\<close>, every row of
  a successful list response is a stored location whose premium flag equals
  \<open>v = ''true''\<close>: premium rows exactly when the parameter is the string \<^verbatim>\<open>true\<close>, and
  non-premium rows for any other value. With no other filter and the default page over
  at most 50 locations, the response holds all such rows.
\<close>

theorem premium_filter_coercion:
  assumes "q_is_premium q = Some v"
    and "data (list_locations parseInt d q) = Some page"
  shows "list_all (\<lambda>l. l \<in> set (locations d) \<and> l_is_premium l = Some (v = ''true'')) (rows page)
     \<and> (v = ''true'' \<longrightarrow> list_all (\<lambda>l. l_is_premium l = Some True) (rows page))
     \<and> (v \<noteq> ''true'' \<longrightarrow> list_all (\<lambda>l. l_is_premium l = Some False) (rows page))
     \<and> (q_category q = None \<and> q_limit q = None \<and> q_offset q = None
          \<and> length (locations d) \<le> 50 \<longrightarrow>
        set (rows page) = {l \<in> set (locations d). l_is_premium l = Some (v = ''true'')})"
proof -
  let ?f = "filter (list_where q) (locations d)"
  obtain n k where nk: "parse_or_default parseInt 50 (q_limit q) = Some n"
      "parse_or_default parseInt 0 (q_offset q) = Some k"
    and rp: "rows page = take (nat n) (drop (nat k) (newest_first ?f))"
    using list_locations_rows[OF assms(2)] by blast
  have "set (rows page) \<subseteq> set (newest_first ?f)"
    unfolding rp by (meson set_take_subset set_drop_subset subset_trans)
  then have sub: "set (rows page) \<subseteq> set ?f"
    by (simp add: set_newest_first)
  have a: "list_all (\<lambda>l. l \<in> set (locations d) \<and> l_is_premium l = Some (v = ''true'')) (rows page)"
    using sub assms(1) by (auto simp: list_all_iff list_where_def split: option.splits)
  have b: "v = ''true'' \<longrightarrow> list_all (\<lambda>l. l_is_premium l = Some True) (rows page)"
    using a by (auto simp: list_all_iff)
  have c: "v \<noteq> ''true'' \<longrightarrow> list_all (\<lambda>l. l_is_premium l = Some False) (rows page)"
    using a by (auto simp: list_all_iff)
  have d: "q_category q = None \<and> q_limit q = None \<and> q_offset q = None
          \<and> length (locations d) \<le> 50 \<longrightarrow>
        set (rows page) = {l \<in> set (locations d). l_is_premium l = Some (v = ''true'')}"
  proof
    assume h: "q_category q = None \<and> q_limit q = None \<and> q_offset q = None
          \<and> length (locations d) \<le> 50"
    have "length ?f \<le> 50"
      by (rule le_trans[OF length_filter_le]) (use h in simp)
    then have len: "length (newest_first ?f) \<le> 50"
      by (simp add: newest_first_def)
    have "n = 50" "k = 0" using nk h by (simp_all add: parse_or_default_def)
    then have "rows page = newest_first ?f" using len rp by simp
    then show "set (rows page) = {l \<in> set (locations d). l_is_premium l = Some (v = ''true'')}"
      using assms(1) h by (auto simp: list_where_def set_newest_first)
  qed
  from a b c d show ?thesis by blast
qed

text \<open>On the seeded database, \<^verbatim>\<open>?is_premium=TRUE\<close> lists the three non-premium
  locations.\<close>

theorem premium_filter_coercion_witness:
  "q_is_premium \<lparr>q_category = None, q_is_premium = Some ''TRUE'', q_limit = None, q_offset = None\<rparr> = Some ''TRUE''
   \<and> map l_id (rows (the (data (list_locations (\<lambda>s. None) (initializeDatabase 0)
         \<lparr>q_category = None, q_is_premium = Some ''TRUE'', q_limit = None, q_offset = None\<rparr>)))) = [1, 2, 4]
   \<and> list_all (\<lambda>l. l_is_premium l = Some False) (rows (the (data (list_locations (\<lambda>s. None) (initializeDatabase 0)
         \<lparr>q_category = None, q_is_premium = Some ''TRUE'', q_limit = None, q_offset = None\<rparr>))))"
proof -
  let ?q = "\<lparr>q_category = None, q_is_premium = Some ''TRUE'', q_limit = None, q_offset = None\<rparr>"
  let ?r = "list_locations (\<lambda>s. None) (initializeDatabase 0) ?q"
  have h1: "q_is_premium ?q = Some ''TRUE''" by simp
  have h2: "data ?r = Some (the (data ?r))"
    by (simp add: list_locations_def parse_or_default_def select_page_def ok_def)
  have ids: "map l_id (rows (the (data ?r))) = [1, 2, 4]"
    by (simp add: list_locations_def parse_or_default_def select_page_def ok_def
        initializeDatabase_def defaultLocations_def newest_first_def list_where_def)
  from premium_filter_coercion[OF h1 h2] h1 ids show ?thesis by simp
qed

subsection \<open>The first registered user\<close>

lemma one_user_db_eq:
  "one_user_db =
     \<lparr>users = [\<lparr>u_id = 1, u_email = ''a@x.com'', u_password_hash = ''$2a$12$secret1'',
                 u_first_name = [], u_last_name = [], u_is_premium = False,
                 u_subscription_type = ''free'', u_created_at = 0, u_updated_at = 0\<rparr>],
      users_seq = 2, locations = defaultLocations 0, user_favorites = [], user_progress = []\<rparr>"
  by (simp add: one_user_db_def register_def plain_env_def lower_case_def first_registration_def
      validateRegistration_def field_string_def name_ok_def users_by_email_def
      initializeDatabase_def insert_user_def Let_def)

subsection \<open>The statistics overview\<close>

lemma rated_alt: "rated ls = filter (\<lambda>r. 0 < r) (List.map_filter l_rating ls)"
proof -
  have "concat (map (\<lambda>l. case l_rating l of None \<Rightarrow> [] | Some r \<Rightarrow> [r]) ls) = List.map_filter l_rating ls"
    by (induction ls) (auto simp: List.map_filter_simps split: option.splits)
  then show ?thesis by (simp add: rated_def)
qed

lemma category_stats_desc: "sorted_wrt (\<lambda>a b. b \<le> a) (map snd (category_stats ls))"
proof -
  let ?xs = "map (\<lambda>c. (c, category_count ls c)) (remdups (map l_category ls))"
  have "sorted (map (\<lambda>g. - int (snd g)) (sort_key (\<lambda>g. - int (snd g)) ?xs))"
    by (rule sorted_sort_key)
  then have "sorted_wrt (\<lambda>a b. - int (snd a) \<le> - int (snd b)) (category_stats ls)"
    by (simp add: category_stats_def sorted_wrt_map)
  then have "sorted_wrt (\<lambda>a b. snd b \<le> snd a) (category_stats ls)"
    by (rule sorted_wrt_mono_rel[rotated]) simp
  then show ?thesis by (simp add: sorted_wrt_map)
qed

lemma category_stats_set:
  "set (category_stats ls) = (\<lambda>c. (c, category_count ls c)) ` set (map l_category ls)"
  by (simp add: category_stats_def)

lemma category_stats_keys: "distinct (map fst (category_stats ls))"
proof -
  let ?xs = "map (\<lambda>c. (c, category_count ls c)) (remdups (map l_category ls))"
  have "map fst ?xs = remdups (map l_category ls)"
    by (simp add: comp_def)
  then have "distinct (map fst ?xs)" by simp
  then have "distinct ?xs \<and> inj_on fst (set ?xs)"
    by (simp only: distinct_map)
  then have "distinct (category_stats ls) \<and> inj_on fst (set (category_stats ls))"
    by (simp add: category_stats_def)
  then show ?thesis by (simp only: distinct_map)
qed

lemma map_filter_map: "List.map_filter f xs = List.map_filter id (map f xs)"
  by (induction xs) (auto simp: List.map_filter_simps split: option.splits)

lemma avg_times_count:
  "(case avg_rating ls of None \<Rightarrow> 0 | Some a \<Rightarrow> a) * of_nat (length (rated ls)) = sum_list (rated ls)"
  by (simp add: avg_rating_def)

text \<open>
  C6: the overview always answers 200 with the total count, the premium count, the free
  count as their difference, one entry per stored category with the number of its rows,
  in descending order of that number, and an average rating that is the mean of the
  ratings strictly greater than zero (0 when there is none); over the ratings
  \<open>[0, 0, 4, 5]\<close> it is \<open>9 / 2\<close>, not \<open>9 / 4\<close>. The average is the number before its
  formatting by \<^verbatim>\<open>toFixed(1)\<close>.
\<close>

theorem stats_overview_aggregation:
  "\<exists>ov. stats_overview d = ok 200 None (Some ov)
     \<and> total_locations ov = int (length (locations d))
     \<and> premium_locations ov = int (length (filter (\<lambda>l. l_is_premium l = Some True) (locations d)))
     \<and> free_locations ov = total_locations ov - premium_locations ov
     \<and> sorted_wrt (\<lambda>a b. b \<le> a) (map snd (categories ov))
     \<and> distinct (map fst (categories ov))
     \<and> set (map fst (categories ov)) = set (map l_category (locations d))
     \<and> list_all (\<lambda>g. snd g = length (filter (\<lambda>l. l_category l = fst g) (locations d))) (categories ov)
     \<and> average_rating ov * of_nat (length (filter (\<lambda>r. 0 < r) (List.map_filter l_rating (locations d))))
         = sum_list (filter (\<lambda>r. 0 < r) (List.map_filter l_rating (locations d)))
     \<and> (filter (\<lambda>r. 0 < r) (List.map_filter l_rating (locations d)) = [] \<longrightarrow> average_rating ov = 0)
     \<and> (map l_rating (locations d) = [Some 0, Some 0, Some 4, Some 5]
          \<longrightarrow> average_rating ov = 9 / 2 \<and> average_rating ov \<noteq> 9 / 4)"
proof -
  let ?ls = "locations d"
  let ?ov = "\<lparr>total_locations = int (length ?ls),
              premium_locations = int (length (filter (\<lambda>l. l_is_premium l = Some True) ?ls)),
              free_locations = int (length ?ls) - int (length (filter (\<lambda>l. l_is_premium l = Some True) ?ls)),
              average_rating = (case avg_rating ?ls of None \<Rightarrow> 0 | Some a \<Rightarrow> a),
              categories = category_stats ?ls\<rparr>"
  have eq: "stats_overview d = ok 200 None (Some ?ov)"
    by (simp add: stats_overview_def Let_def)
  have keys: "set (map fst (category_stats ?ls)) = set (map l_category ?ls)"
    by (simp add: category_stats_set image_image)
  have counts: "list_all (\<lambda>g. snd g = length (filter (\<lambda>l. l_category l = fst g) ?ls)) (category_stats ?ls)"
    by (auto simp: list_all_iff category_stats_set category_count_def)
  have avg: "(case avg_rating ?ls of None \<Rightarrow> 0 | Some a \<Rightarrow> a)
               * of_nat (length (filter (\<lambda>r. 0 < r) (List.map_filter l_rating ?ls)))
             = sum_list (filter (\<lambda>r. 0 < r) (List.map_filter l_rating ?ls))"
    using avg_times_count[of ?ls] by (simp add: rated_alt)
  have none: "filter (\<lambda>r. 0 < r) (List.map_filter l_rating ?ls) = []
               \<longrightarrow> (case avg_rating ?ls of None \<Rightarrow> 0 | Some a \<Rightarrow> a) = 0"
    by (simp add: avg_rating_def rated_alt)
  have ex: "map l_rating ?ls = [Some 0, Some 0, Some 4, Some 5]
             \<longrightarrow> (case avg_rating ?ls of None \<Rightarrow> 0 | Some a \<Rightarrow> a) = 9 / 2
               \<and> (case avg_rating ?ls of None \<Rightarrow> 0 | Some a \<Rightarrow> a) \<noteq> 9 / 4"
  proof
    assume m: "map l_rating ?ls = [Some 0, Some 0, Some 4, Some 5]"
    have "rated ?ls = [4, 5]"
      by (simp add: rated_alt map_filter_map[of l_rating] m List.map_filter_simps)
    then show "(case avg_rating ?ls of None \<Rightarrow> 0 | Some a \<Rightarrow> a) = 9 / 2
               \<and> (case avg_rating ?ls of None \<Rightarrow> 0 | Some a \<Rightarrow> a) \<noteq> 9 / 4"
      by (simp add: avg_rating_def)
  qed
  show ?thesis
    apply (rule exI[of _ ?ov])
    using eq keys counts avg none ex category_stats_desc[of ?ls] category_stats_keys[of ?ls]
    by simp
qed

text \<open>The four seeded locations with the ratings 0, 0, 4 and 5: one premium and three
  free locations, Architecture counted twice and first, average 4.5.\<close>

theorem stats_overview_aggregation_witness:
  "map l_rating (locations (with_ratings [0, 0, 4, 5] (initializeDatabase 0)))
     = [Some 0, Some 0, Some 4, Some 5]
   \<and> average_rating (the (data (stats_overview (with_ratings [0, 0, 4, 5] (initializeDatabase 0))))) = 9 / 2
   \<and> total_locations (the (data (stats_overview (with_ratings [0, 0, 4, 5] (initializeDatabase 0))))) = 4
   \<and> premium_locations (the (data (stats_overview (with_ratings [0, 0, 4, 5] (initializeDatabase 0))))) = 1
   \<and> free_locations (the (data (stats_overview (with_ratings [0, 0, 4, 5] (initializeDatabase 0))))) = 3
   \<and> categories (the (data (stats_overview (with_ratings [0, 0, 4, 5] (initializeDatabase 0)))))
       = [(Some ''Architecture'', 2), (Some ''Religion'', 1), (Some ''History'', 1)]"
proof -
  let ?d = "with_ratings [0, 0, 4, 5] (initializeDatabase 0)"
  have m: "map l_rating (locations ?d) = [Some 0, Some 0, Some 4, Some 5]"
    by (simp add: with_ratings_def initializeDatabase_def defaultLocations_def)
  have n: "length (locations ?d) = 4"
    by (simp add: with_ratings_def initializeDatabase_def defaultLocations_def)
  have p: "length (filter (\<lambda>l. l_is_premium l = Some True) (locations ?d)) = 1"
    by (simp add: with_ratings_def initializeDatabase_def defaultLocations_def)
  have c: "category_stats (locations ?d)
       = [(Some ''Architecture'', 2), (Some ''Religion'', 1), (Some ''History'', 1)]"
    by (simp add: category_stats_def category_count_def with_ratings_def initializeDatabase_def
        defaultLocations_def)
  obtain ov where ov: "stats_overview ?d = ok 200 None (Some ov)"
    and av: "average_rating ov = 9 / 2"
    and tot: "total_locations ov = 4" and pr: "premium_locations ov = 1"
    and fr: "free_locations ov = total_locations ov - premium_locations ov"
    using stats_overview_aggregation[of ?d] m n p by auto
  have cs: "categories ov = category_stats (locations ?d)"
    using ov by (auto simp: stats_overview_def Let_def ok_def)
  show ?thesis using m ov av tot pr fr cs c by (simp add: ok_def)
qed

subsection \<open>Login failures\<close>

text \<open>
  C4: a login that fails because no user row holds the submitted email and a login that
  fails because the submitted password does not verify against the stored hash get the
  same response: status 401 with error \<^verbatim>\<open>Invalid credentials\<close> and message
  \<^verbatim>\<open>Email or password is incorrect\<close>, equal in every field.
\<close>

theorem login_failure_indistinguishable:
  assumes "validateLogin e b = []" and "validateLogin e b' = []"
    and "users_by_email d (normalizeEmail e (field_string (lb_email b))) = []"
    and "users_by_email d' (normalizeEmail e (field_string (lb_email b'))) = u # us"
    and "\<not> bcrypt_compare e (field_string (lb_password b')) (u_password_hash u)"
  shows "login e now d b = login e now' d' b'
     \<and> login e now d b = fail 401 ''Invalid credentials'' (Some ''Email or password is incorrect'')
     \<and> status (login e now d b) = 401 \<and> status (login e now' d' b') = 401
     \<and> error (login e now d b) = error (login e now' d' b')
     \<and> message (login e now d b) = message (login e now' d' b')"
proof -
  have 1: "login e now d b = fail 401 ''Invalid credentials'' (Some ''Email or password is incorrect'')"
    using assms(1,3) by (simp add: login_def Let_def)
  have 2: "login e now' d' b' = fail 401 ''Invalid credentials'' (Some ''Email or password is incorrect'')"
    using assms(2,4,5) by (simp add: login_def Let_def)
  show ?thesis by (simp add: 1 2 fail_def)
qed

text \<open>With \<^verbatim>\<open>a@x.com\<close> registered under the password \<^verbatim>\<open>secret1\<close>: an unknown address and a
  wrong password get the same 401, the right password gets 200.\<close>

theorem login_failure_indistinguishable_witness:
  "login plain_env 5 one_user_db \<lparr>lb_email = Some ''b@x.com'', lb_password = Some ''secret1''\<rparr>
     = login plain_env 9 one_user_db \<lparr>lb_email = Some ''a@x.com'', lb_password = Some ''secret2''\<rparr>
   \<and> status (login plain_env 5 one_user_db \<lparr>lb_email = Some ''b@x.com'', lb_password = Some ''secret1''\<rparr>) = 401
   \<and> status (login plain_env 5 one_user_db \<lparr>lb_email = Some ''a@x.com'', lb_password = Some ''secret1''\<rparr>) = 200"
proof -
  let ?b = "\<lparr>lb_email = Some ''b@x.com'', lb_password = Some ''secret1''\<rparr>"
  let ?b' = "\<lparr>lb_email = Some ''a@x.com'', lb_password = Some ''secret2''\<rparr>"
  let ?u = "\<lparr>u_id = 1, u_email = ''a@x.com'', u_password_hash = ''$2a$12$secret1'',
                 u_first_name = [], u_last_name = [], u_is_premium = False,
                 u_subscription_type = ''free'', u_created_at = 0, u_updated_at = 0\<rparr>"
  have v1: "validateLogin plain_env ?b = []" and v2: "validateLogin plain_env ?b' = []"
    by (simp_all add: validateLogin_def plain_env_def lower_case_def field_string_def)
  have n: "users_by_email one_user_db (normalizeEmail plain_env (field_string (lb_email ?b))) = []"
    by (simp add: one_user_db_eq users_by_email_def plain_env_def lower_case_def field_string_def)
  have y: "users_by_email one_user_db (normalizeEmail plain_env (field_string (lb_email ?b'))) = ?u # []"
    by (simp add: one_user_db_eq users_by_email_def plain_env_def lower_case_def field_string_def)
  have c: "\<not> bcrypt_compare plain_env (field_string (lb_password ?b')) (u_password_hash ?u)"
    by (simp add: plain_env_def lower_case_def field_string_def)
  have right: "status (login plain_env 5 one_user_db \<lparr>lb_email = Some ''a@x.com'', lb_password = Some ''secret1''\<rparr>) = 200"
    by (simp add: login_def validateLogin_def one_user_db_eq users_by_email_def plain_env_def lower_case_def
        field_string_def ok_def Let_def)
  from login_failure_indistinguishable[OF v1 v2 n y c, of 5 9] right show ?thesis by simp
qed

subsection \<open>Favorites\<close>













subsection \<open>Progress writes\<close>

























subsection \<open>Tokens\<close>

lemma split_on_no_sep: "c \<notin> set s \<Longrightarrow> split_on c s = [s]"
  by (induction s) auto

lemma split_on_prefix: "c \<notin> set a \<Longrightarrow> split_on c (a @ c # b) = a # split_on c b"
  by (induction a) auto

lemma bearer_token_of:
  assumes "CHR '' '' \<notin> set t" and "t \<noteq> []"
  shows "bearer_token (Some (''Bearer '' @ t)) = Some t"
proof -
  have "''Bearer '' @ t = ''Bearer'' @ CHR '' '' # t" by simp
  moreover have "CHR '' '' \<notin> set ''Bearer''" by simp
  ultimately have "split_on CHR '' '' (''Bearer '' @ t) = ''Bearer'' # split_on CHR '' '' t"
    using split_on_prefix[of "CHR '' ''" "''Bearer''" t] by simp
  then have "split_on CHR '' '' (''Bearer '' @ t) = [''Bearer'', t]"
    using assms(1) by (simp add: split_on_no_sep)
  then show ?thesis
    using assms(2) by (simp add: bearer_token_def js_index_def)
qed

text \<open>The encoding of signed tokens decodes to what was encoded, and an encoded token
  is non-empty and has neither a dot inside a field nor a space.\<close>

lemma nibble_round: "k < 16 \<Longrightarrow> nibble_of (nibble_char k) = Some k"
  by (simp add: nibble_of_def nibble_char_def)

lemma nibble_code: "k < 16 \<Longrightarrow> of_char (nibble_char k) = 97 + k"
  by (simp add: nibble_char_def)

lemma char_of_nibbles: "char_of (16 * ((of_char c :: nat) div 16) + (of_char c :: nat) mod 16) = c"
  by simp

lemma high_nibble: "(of_char (c :: char) :: nat) div 16 < 16"
proof -
  have "(of_char c :: nat) < 256" by simp
  then show ?thesis by (simp add: less_mult_imp_div_less)
qed

lemma hex_round: "hex_decode (hex_encode s) = Some s"
  by (induction s) (simp_all add: nibble_round high_nibble)

lemma hex_codes: "c \<in> set (hex_encode s) \<Longrightarrow> 97 \<le> (of_char c :: nat)"
  by (induction s) (auto simp: nibble_code high_nibble)

lemma digits_nonempty: "digits_of n \<noteq> []"
  by (subst digits_of.simps) simp

lemma digits_are_digits: "list_all is_digit (digits_of n)"
proof (induction n rule: digits_of.induct)
  case (1 n)
  show ?case
  proof (cases "n < 10")
    case True
    then show ?thesis by (subst digits_of.simps) (simp add: is_digit_def)
  next
    case False
    have "n mod 10 < 10" by simp
    then have "is_digit (char_of (48 + n mod 10))"
      by (simp add: is_digit_def)
    then show ?thesis
      using False 1 by (subst digits_of.simps) simp
  qed
qed

lemma nat_of_digits_snoc:
  "nat_of_digits (ds @ [c]) = 10 * nat_of_digits ds + (of_char c - 48)"
  by (simp add: nat_of_digits_def)

lemma digits_value: "nat_of_digits (digits_of n) = n"
proof (induction n rule: digits_of.induct)
  case (1 n)
  show ?case
  proof (cases "n < 10")
    case True
    then show ?thesis by (subst digits_of.simps) (simp add: nat_of_digits_def)
  next
    case False
    have "nat_of_digits (digits_of (n div 10) @ [char_of (48 + n mod 10)])
            = 10 * (n div 10) + n mod 10"
      using 1[OF False] by (simp add: nat_of_digits_snoc)
    then show ?thesis
      using False by (subst digits_of.simps) simp
  qed
qed

lemma digits_round: "unsigned_literal (digits_of n) = Some n"
  by (simp add: unsigned_literal_def digits_nonempty digits_are_digits digits_value)

lemma digits_codes: "c \<in> set (digits_of n) \<Longrightarrow> 48 \<le> (of_char c :: nat)"
  using digits_are_digits[of n] by (auto simp: list_all_iff is_digit_def)

lemma digit_not_sign: "is_digit c \<Longrightarrow> c \<noteq> CHR ''-'' \<and> c \<noteq> CHR ''+''"
  by (auto simp: is_digit_def)

lemma int_round: "int_literal (int_string i) = Some i"
proof (cases "i < 0")
  case True
  then show ?thesis by (simp add: int_string_def digits_round)
next
  case False
  obtain c cs where d: "digits_of (nat i) = c # cs"
    using digits_nonempty[of "nat i"] by (cases "digits_of (nat i)") auto
  have "is_digit c"
    using digits_are_digits[of "nat i"] by (simp add: d)
  then have "c \<noteq> CHR ''-'' \<and> c \<noteq> CHR ''+''" by (rule digit_not_sign)
  moreover have "unsigned_literal (c # cs) = Some (nat i)"
    using digits_round[of "nat i"] by (simp add: d)
  ultimately show ?thesis
    using False by (simp add: int_string_def d)
qed

lemma bool_round: "bool_parse (bool_string b) = Some b"
  by (simp add: bool_parse_def bool_string_def)

lemma hex_safe: "c \<in> set (hex_encode s) \<Longrightarrow> c \<noteq> CHR ''.'' \<and> c \<noteq> CHR '' ''"
  using hex_codes[of c s] by auto

lemma digits_safe: "c \<in> set (digits_of n) \<Longrightarrow> c \<noteq> CHR ''.'' \<and> c \<noteq> CHR '' ''"
  using digits_codes[of c n] by auto

lemma int_safe: "c \<in> set (int_string i) \<Longrightarrow> c \<noteq> CHR ''.'' \<and> c \<noteq> CHR '' ''"
  using digits_safe by (auto simp: int_string_def split: if_splits)

lemma bool_safe: "c \<in> set (bool_string b) \<Longrightarrow> c \<noteq> CHR ''.'' \<and> c \<noteq> CHR '' ''"
  by (auto simp: bool_string_def split: if_splits)

lemma split_seven:
  assumes "CHR ''.'' \<notin> set a" "CHR ''.'' \<notin> set b" "CHR ''.'' \<notin> set c" "CHR ''.'' \<notin> set d"
    "CHR ''.'' \<notin> set f" "CHR ''.'' \<notin> set g" "CHR ''.'' \<notin> set h"
  shows "split_on CHR ''.'' (a @ ''.'' @ b @ ''.'' @ c @ ''.'' @ d @ ''.'' @ f @ ''.'' @ g @ ''.'' @ h)
           = [a, b, c, d, f, g, h]"
  using assms by (simp add: split_on_prefix split_on_no_sep)

lemma jwt_string_fields:
  "split_on CHR ''.'' (jwt_string t)
     = [hex_encode (c_email (payload t)), hex_encode (c_subscription_type (payload t)),
        int_string (c_id (payload t)), bool_string (c_is_premium (payload t)),
        digits_of (iat (payload t)), digits_of (exp (payload t)), hex_encode (signature t)]"
proof -
  have "jwt_string t = hex_encode (c_email (payload t)) @ ''.''
          @ hex_encode (c_subscription_type (payload t)) @ ''.''
          @ int_string (c_id (payload t)) @ ''.'' @ bool_string (c_is_premium (payload t)) @ ''.''
          @ digits_of (iat (payload t)) @ ''.'' @ digits_of (exp (payload t)) @ ''.''
          @ hex_encode (signature t)"
    by (simp add: jwt_string_def payload_string_def)
  then show ?thesis
    using hex_safe digits_safe int_safe bool_safe
    by (simp only: ) (rule split_seven; blast)
qed

lemma jwt_round: "jwt_parse (jwt_string t) = Some t"
  by (simp add: jwt_parse_def jwt_string_fields hex_round int_round bool_round digits_round)

lemma jwt_string_safe: "jwt_string t \<noteq> [] \<and> CHR '' '' \<notin> set (jwt_string t)"
proof -
  have h: "CHR '' '' \<notin> set (hex_encode s)" for s using hex_safe by blast
  have n: "CHR '' '' \<notin> set (digits_of k)" for k using digits_safe by blast
  have i: "CHR '' '' \<notin> set (int_string k)" for k using int_safe by blast
  have b: "CHR '' '' \<notin> set (bool_string k)" for k using bool_safe by blast
  show ?thesis
    by (simp add: jwt_string_def payload_string_def h n i b)
qed

text \<open>
  C1: for every claims record, a token signed at time \<open>t0\<close> with a secret verifies with
  that secret at any time before \<open>t0\<close> plus seven days and yields the id, email, premium
  flag and subscription type that were signed, together with the issue time and the
  expiry; and the token that \<open>generateToken\<close> issues for a user row, sent as
  \<^verbatim>\<open>Bearer <token>\<close> before its expiry, passes \<open>authenticateToken\<close>, which attaches the id,
  email, premium flag and subscription type of that row. The signature function and the
  token encoding of the library are parameters; of the encoding the theorem asks what
  every encoding of tokens as strings gives: decoding an encoded token yields that
  token, and an encoded token is non-empty and has no space in it.
\<close>

theorem token_round_trip:
  assumes "\<forall>t. jwt_decode e (jwt_encode e t) = Some t"
    and "\<forall>t. jwt_encode e t \<noteq> [] \<and> CHR '' '' \<notin> set (jwt_encode e t)"
    and "now < t0 + seven_days"
  shows "jwt_verify e (jwt_sign e c secret t0) secret now
           = Inr \<lparr>c_id = c_id c, c_email = c_email c, c_is_premium = c_is_premium c,
                  c_subscription_type = c_subscription_type c, iat = t0, exp = t0 + 604800\<rparr>
     \<and> authenticateToken e now (Some (''Bearer '' @ generateToken e t0 user))
           = Next \<lparr>c_id = u_id user, c_email = u_email user, c_is_premium = u_is_premium user,
                   c_subscription_type = u_subscription_type user, iat = t0,
                   exp = t0 + 604800\<rparr>"
proof -
  have v: "jwt_verify e (jwt_sign e c secret t0) secret now
           = Inr \<lparr>c_id = c_id c, c_email = c_email c, c_is_premium = c_is_premium c,
                  c_subscription_type = c_subscription_type c, iat = t0, exp = t0 + 604800\<rparr>"
    for c secret
    using assms(1,3)
    by (simp add: jwt_verify_def jwt_sign_def issued_jwt_def Let_def seven_days_def)
  have tok: "generateToken e t0 user = jwt_encode e (issued_jwt e (claims_of user) (jwt_secret e) t0)"
    by (simp add: generateToken_def jwt_sign_def)
  have "CHR '' '' \<notin> set (generateToken e t0 user)" and "generateToken e t0 user \<noteq> []"
    using assms(2) by (simp_all add: tok)
  then have b: "bearer_token (Some (''Bearer '' @ generateToken e t0 user)) = Some (generateToken e t0 user)"
    by (rule bearer_token_of)
  have a: "authenticateToken e now (Some (''Bearer '' @ generateToken e t0 user))
           = Next \<lparr>c_id = u_id user, c_email = u_email user, c_is_premium = u_is_premium user,
                   c_subscription_type = u_subscription_type user, iat = t0,
                   exp = t0 + 604800\<rparr>"
  proof -
    have "jwt_verify e (generateToken e t0 user) (jwt_secret e) now
           = Inr \<lparr>c_id = u_id user, c_email = u_email user, c_is_premium = u_is_premium user,
                   c_subscription_type = u_subscription_type user, iat = t0,
                   exp = t0 + 604800\<rparr>"
      using v[of "claims_of user" "jwt_secret e"] by (simp add: generateToken_def claims_of_def)
    then show ?thesis
      unfolding authenticateToken_def b by simp
  qed
  show ?thesis by (intro conjI v a)
qed

lemma token_env_codec: "jwt_decode token_env (jwt_encode token_env t) = Some t"
  by (simp add: token_env_def jwt_round)

lemma token_env_safe:
  "jwt_encode token_env t \<noteq> [] \<and> CHR '' '' \<notin> set (jwt_encode token_env t)"
  using jwt_string_safe[of t] by (simp add: token_env_def)

text \<open>
  Under \<open>token_env\<close>, whose encoding writes every field of the token into the string and
  whose signature depends on the secret and on every claim, the tokens of two different
  users, issued at time 0 and presented at time 10, each attach their own user's claims.
\<close>

theorem token_round_trip_witness:
  "(\<forall>t. jwt_decode token_env (jwt_encode token_env t) = Some t)
   \<and> (\<forall>t. jwt_encode token_env t \<noteq> [] \<and> CHR '' '' \<notin> set (jwt_encode token_env t))
   \<and> (10::nat) < 0 + seven_days
   \<and> authenticateToken token_env 10 (Some (''Bearer '' @ generateToken token_env 0 first_user))
       = Next \<lparr>c_id = 1, c_email = ''a@x.com'', c_is_premium = False,
               c_subscription_type = ''free'', iat = 0, exp = 604800\<rparr>
   \<and> authenticateToken token_env 10 (Some (''Bearer '' @ generateToken token_env 0 second_user))
       = Next \<lparr>c_id = 2, c_email = ''b@x.com'', c_is_premium = True,
               c_subscription_type = ''pro'', iat = 0, exp = 604800\<rparr>"
proof -
  have h1: "\<forall>t. jwt_decode token_env (jwt_encode token_env t) = Some t"
    by (simp add: token_env_codec)
  have h2: "\<forall>t. jwt_encode token_env t \<noteq> [] \<and> CHR '' '' \<notin> set (jwt_encode token_env t)"
    using token_env_safe by blast
  have h3: "(10::nat) < 0 + seven_days"
    by (simp add: seven_days_def)
  have u1: "authenticateToken token_env 10 (Some (''Bearer '' @ generateToken token_env 0 first_user))
       = Next \<lparr>c_id = 1, c_email = ''a@x.com'', c_is_premium = False,
               c_subscription_type = ''free'', iat = 0, exp = 604800\<rparr>"
    using token_round_trip[OF h1 h2 h3, of "claims_of first_user" "jwt_secret token_env" first_user, THEN conjunct2]
    by (simp add: first_user_def)
  have u2: "authenticateToken token_env 10 (Some (''Bearer '' @ generateToken token_env 0 second_user))
       = Next \<lparr>c_id = 2, c_email = ''b@x.com'', c_is_premium = True,
               c_subscription_type = ''pro'', iat = 0, exp = 604800\<rparr>"
    using token_round_trip[OF h1 h2 h3, of "claims_of second_user" "jwt_secret token_env" second_user, THEN conjunct2]
    by (simp add: second_user_def)
  show ?thesis by (intro conjI h1 h2 h3 u1 u2)
qed

text \<open>
  C2: for a request that carries a bearer token: a token whose signature verifies and whose
  expiry has been reached is rejected with 401 and \<^verbatim>\<open>Token expired\<close>, not with the
  invalid-token response; a token whose signature does not verify (tampered, or signed
  with another secret) is rejected with 403 and \<^verbatim>\<open>Invalid token\<close>, not with the
  expired-token response, and so is a token that does not decode; whatever error the
  verification calls back with is answered by \<open>token_rejection\<close>, which for an error of any
  other name gives 403 and \<^verbatim>\<open>Token verification failed\<close>, different from both.
\<close>

theorem token_failure_distinction:
  assumes "bearer_token h = Some tok"
  shows "(jwt_decode e tok = Some t \<and> signature t = jwt_mac e (jwt_secret e) (payload t)
            \<and> exp (payload t) \<le> now \<longrightarrow>
          authenticateToken e now h
            = Rejected (fail 401 ''Token expired'' (Some ''Your session has expired. Please login again.''))
          \<and> authenticateToken e now h
            \<noteq> Rejected (fail 403 ''Invalid token'' (Some ''The provided token is invalid'')))
     \<and> (jwt_decode e tok = Some t \<and> signature t \<noteq> jwt_mac e (jwt_secret e) (payload t) \<longrightarrow>
          authenticateToken e now h
            = Rejected (fail 403 ''Invalid token'' (Some ''The provided token is invalid''))
          \<and> authenticateToken e now h
            \<noteq> Rejected (fail 401 ''Token expired'' (Some ''Your session has expired. Please login again.'')))
     \<and> (jwt_decode e tok = None \<longrightarrow>
          authenticateToken e now h
            = Rejected (fail 403 ''Invalid token'' (Some ''The provided token is invalid'')))
     \<and> (jwt_verify e tok (jwt_secret e) now = Inl err \<longrightarrow>
          authenticateToken e now h = Rejected (token_rejection err))
     \<and> (name err \<noteq> ''TokenExpiredError'' \<and> name err \<noteq> ''JsonWebTokenError'' \<longrightarrow>
          token_rejection err
            = fail 403 ''Token verification failed'' (Some ''Unable to verify the provided token'')
          \<and> token_rejection err
            \<noteq> fail 401 ''Token expired'' (Some ''Your session has expired. Please login again.'')
          \<and> token_rejection err
            \<noteq> fail 403 ''Invalid token'' (Some ''The provided token is invalid''))"
proof -
  have a: "jwt_decode e tok = Some t \<and> signature t = jwt_mac e (jwt_secret e) (payload t)
            \<and> exp (payload t) \<le> now \<longrightarrow>
          authenticateToken e now h
            = Rejected (fail 401 ''Token expired'' (Some ''Your session has expired. Please login again.''))
          \<and> authenticateToken e now h
            \<noteq> Rejected (fail 403 ''Invalid token'' (Some ''The provided token is invalid''))"
    using assms by (simp add: authenticateToken_def jwt_verify_def token_rejection_def fail_def)
  have b: "jwt_decode e tok = Some t \<and> signature t \<noteq> jwt_mac e (jwt_secret e) (payload t) \<longrightarrow>
          authenticateToken e now h
            = Rejected (fail 403 ''Invalid token'' (Some ''The provided token is invalid''))
          \<and> authenticateToken e now h
            \<noteq> Rejected (fail 401 ''Token expired'' (Some ''Your session has expired. Please login again.''))"
    using assms by (simp add: authenticateToken_def jwt_verify_def token_rejection_def fail_def)
  have c: "jwt_decode e tok = None \<longrightarrow>
          authenticateToken e now h
            = Rejected (fail 403 ''Invalid token'' (Some ''The provided token is invalid''))"
    using assms by (simp add: authenticateToken_def jwt_verify_def token_rejection_def)
  have d: "jwt_verify e tok (jwt_secret e) now = Inl err \<longrightarrow>
          authenticateToken e now h = Rejected (token_rejection err)"
    using assms by (simp add: authenticateToken_def)
  have f: "name err \<noteq> ''TokenExpiredError'' \<and> name err \<noteq> ''JsonWebTokenError'' \<longrightarrow>
          token_rejection err
            = fail 403 ''Token verification failed'' (Some ''Unable to verify the provided token'')
          \<and> token_rejection err
            \<noteq> fail 401 ''Token expired'' (Some ''Your session has expired. Please login again.'')
          \<and> token_rejection err
            \<noteq> fail 403 ''Invalid token'' (Some ''The provided token is invalid'')"
    by (simp add: token_rejection_def fail_def)
  show ?thesis by (intro conjI a b c d f)
qed

lemma first_bearer:
  "bearer_token (Some ''Bearer eyJhbGciOiJIUzI1NiJ9.eyJpZCI6MX0.c2ln'')
     = Some ''eyJhbGciOiJIUzI1NiJ9.eyJpZCI6MX0.c2ln''"
  using bearer_token_of[of "''eyJhbGciOiJIUzI1NiJ9.eyJpZCI6MX0.c2ln''"] by simp

text \<open>
  The first user's token at its expiry time, the same token after the secret has been
  changed, and an error of another name.
\<close>

theorem token_failure_distinction_witness:
  "bearer_token (Some ''Bearer eyJhbGciOiJIUzI1NiJ9.eyJpZCI6MX0.c2ln'')
     = Some ''eyJhbGciOiJIUzI1NiJ9.eyJpZCI6MX0.c2ln''
   \<and> authenticateToken plain_env 604800 (Some ''Bearer eyJhbGciOiJIUzI1NiJ9.eyJpZCI6MX0.c2ln'')
       = Rejected (fail 401 ''Token expired'' (Some ''Your session has expired. Please login again.''))
   \<and> authenticateToken (plain_env\<lparr>JWT_SECRET := Some ''rotated''\<rparr>) 10
         (Some ''Bearer eyJhbGciOiJIUzI1NiJ9.eyJpZCI6MX0.c2ln'')
       = Rejected (fail 403 ''Invalid token'' (Some ''The provided token is invalid''))
   \<and> token_rejection (JwtError ''NotBeforeError'' ''jwt not active'')
       = fail 403 ''Token verification failed'' (Some ''Unable to verify the provided token'')"
proof -
  let ?h = "Some ''Bearer eyJhbGciOiJIUzI1NiJ9.eyJpZCI6MX0.c2ln''"
  let ?tok = "''eyJhbGciOiJIUzI1NiJ9.eyJpZCI6MX0.c2ln''"
  let ?e2 = "plain_env\<lparr>JWT_SECRET := Some ''rotated''\<rparr>"
  let ?err = "JwtError ''NotBeforeError'' ''jwt not active''"
  have dec: "jwt_decode plain_env ?tok = Some first_user_token"
    by (simp add: plain_env_def)
  have sig: "signature first_user_token
               = jwt_mac plain_env (jwt_secret plain_env) (payload first_user_token)"
    by (simp add: plain_env_def jwt_secret_def first_user_token_def)
  have late: "exp (payload first_user_token) \<le> 604800"
    by (simp add: first_user_token_def)
  have dec2: "jwt_decode ?e2 ?tok = Some first_user_token"
    by (simp add: plain_env_def)
  have sig2: "signature first_user_token
               \<noteq> jwt_mac ?e2 (jwt_secret ?e2) (payload first_user_token)"
    by (simp add: plain_env_def jwt_secret_def first_user_token_def)
  have nm: "name ?err \<noteq> ''TokenExpiredError'' \<and> name ?err \<noteq> ''JsonWebTokenError''"
    by simp
  note T1 = token_failure_distinction[OF first_bearer, of plain_env first_user_token 604800 ?err]
  note T2 = token_failure_distinction[OF first_bearer, of ?e2 first_user_token 10 ?err]
  note expired = T1[THEN conjunct1, THEN mp, OF conjI[OF dec conjI[OF sig late]], THEN conjunct1]
  note invalid = T2[THEN conjunct2, THEN conjunct1, THEN mp, OF conjI[OF dec2 sig2], THEN conjunct1]
  note other = T1[THEN conjunct2, THEN conjunct2, THEN conjunct2, THEN conjunct2, THEN mp, OF nm,
      THEN conjunct1]
  show ?thesis
    by (intro conjI first_bearer expired invalid other)
qed

subsection \<open>Registration\<close>















end
